theory Spec2Isabelle
  imports Complex_Main
begin

section \<open>Boxes in Depth coordinates: data model\<close>

text \<open>
  The development follows \<^verbatim>\<open>mmdet3d/core/bbox/structures/depth_box3d.py\<close>.
  A box collection is a dense \<open>N \<times> box_dim\<close> table of numbers, one row
  \<open>(x, y, z, x_size, y_size, z_size, yaw, ...)\<close> per box, and the flag \<open>with_yaw\<close>.
  Numbers are modelled as exact reals (\<open>np.pi\<close> is \<open>pi\<close>), so every statement below is
  about the arithmetic the code denotes, not about its rounding.
  The in-place methods take the object and return the object after the call, together
  with what the call returns or raises.
\<close>

datatype error = AssertionError | ValueError | IndexError | RuntimeError

record DepthInstance3DBoxes =
  tensor :: "real list list"
  box_dim :: nat
  with_yaw :: bool

text \<open>
  The table is rectangular and has at least the seven columns of the row layout; this
  is what the constructor of the base class hands over.
\<close>

definition wf_boxes :: "DepthInstance3DBoxes \<Rightarrow> bool" where
  "wf_boxes b \<longleftrightarrow> 7 \<le> box_dim b \<and> list_all (\<lambda>r. length r = box_dim b) (tensor b)"

text \<open>
  The \<open>points\<close> argument of \<open>rotate_boxes\<close> and \<open>flip\<close>: \<open>None\<close>, a \<open>torch.Tensor\<close>, a
  \<open>numpy.ndarray\<close> (both given by their rows), or a value of any other kind.
\<close>

datatype points_arg =
  PyNone
| Tensor "real list list"
| Ndarray "real list list"
| Other

subsection \<open>Dense arrays\<close>

definition dot :: "real list \<Rightarrow> real list \<Rightarrow> real" where
  "dot u v = sum_list (map2 (*) u v)"

text \<open>\<open>m.T\<close> of a rectangular matrix given by its rows.\<close>

definition mat_T :: "real list list \<Rightarrow> real list list" where
  "mat_T m = (case m of [] \<Rightarrow> [] | r # _ \<Rightarrow> map (\<lambda>j. map (\<lambda>row. row ! j) m) [0..<length r])"

text \<open>\<open>a @ m\<close>: every row of \<open>a\<close> against every column of \<open>m\<close>.\<close>

definition matmul :: "real list list \<Rightarrow> real list list \<Rightarrow> real list list" where
  "matmul a m = map (\<lambda>r. map (\<lambda>c. dot r c) (mat_T m)) a"

text \<open>
  Modelled from the spec: \<open>limit_period\<close> lives in \<^verbatim>\<open>structures/utils.py\<close>, which is not
  part of the sources at hand. Given value \<open>v\<close>, offset fraction \<open>f\<close> and period \<open>p\<close> it
  returns \<open>v - floor (v / p + f) * p\<close>.
\<close>

definition limit_period :: "real \<Rightarrow> real \<Rightarrow> real \<Rightarrow> real" where
  "limit_period val offset period = val - of_int \<lfloor>val / period + offset\<rfloor> * period"

text \<open>
  The matrix \<open>rot_mat_T\<close> that \<open>rotate_boxes\<close> builds from the sine and cosine of the angle.
\<close>

definition rot_mat_T :: "real \<Rightarrow> real list list" where
  "rot_mat_T angle =
     (let rot_sin = sin angle; rot_cos = cos angle
      in mat_T [[rot_cos, - rot_sin, 0], [rot_sin, rot_cos, 0], [0, 0, 1]])"

text \<open>
  Modelled from the spec: \<open>rotation_3d_in_axis\<close> lives in \<^verbatim>\<open>structures/utils.py\<close>, which
  is not part of the sources at hand. For the vertical axis it rotates the points of
  every box about that axis by the box's angle, with the rotation matrix of \<open>rotate_boxes\<close>
  (transposed for right-multiplication).
\<close>

definition rotation_3d_in_axis :: "real list list list \<Rightarrow> real list \<Rightarrow> real list list list" where
  "rotation_3d_in_axis points angles = map2 (\<lambda>ps a. matmul ps (rot_mat_T a)) points angles"

section \<open>Derived views\<close>

text \<open>
  Modelled from the spec: \<open>bottom_center\<close> and \<open>dims\<close> are properties of the base class
  \<^verbatim>\<open>BaseInstance3DBoxes\<close>, which is not part of the sources at hand. The first is the
  stored center (columns 0 to 2), the second the three size columns (3 to 5).
\<close>

definition bottom_center :: "DepthInstance3DBoxes \<Rightarrow> real list list" where
  "bottom_center b = map (take 3) (tensor b)"

definition dims :: "DepthInstance3DBoxes \<Rightarrow> real list list" where
  "dims b = map (\<lambda>r. take 3 (drop 3 r)) (tensor b)"

text \<open>
  \<open>gravity_center\<close>: the first two coordinates of the bottom center, and its third
  raised by half of column 5. A table without column 5 makes the column read fail.
\<close>

definition gravity_center :: "DepthInstance3DBoxes \<Rightarrow> error + real list list" where
  "gravity_center b =
     (if box_dim b < 6 then Inl IndexError
      else Inr (map2 (\<lambda>bc r. take 2 bc @ [bc ! 2 + r ! 5 * 0.5]) (bottom_center b) (tensor b)))"

text \<open>
  \<open>np.unravel_index(i, [2, 2, 2])\<close> for \<open>i < 8\<close>: the three binary digits of \<open>i\<close>, most
  significant first.
\<close>

definition unravel_index :: "nat \<Rightarrow> real list" where
  "unravel_index i = [of_nat (i div 4), of_nat (i div 2 mod 2), of_nat (i mod 2)]"

definition corners_norm :: "real list list" where
  "corners_norm = map (\<lambda>i. map2 (-) (unravel_index i) [0.5, 0.5, 0]) [0, 1, 3, 2, 4, 5, 7, 6]"

text \<open>
  \<open>corners\<close>: asserts a non-empty table, scales the unit corners by the sizes, rotates
  them about the vertical axis by column 6 and adds the stored center. On a table
  without column 6 the call fails in torch (at the latest at the read of that column).
\<close>

definition corners :: "DepthInstance3DBoxes \<Rightarrow> error + real list list list" where
  "corners b =
     (if length (tensor b) = 0 then Inl AssertionError
      else if box_dim b < 7 then Inl IndexError
      else
        let cs = map (\<lambda>d. map (\<lambda>cn. map2 (*) d cn) corners_norm) (dims b);
            cs = rotation_3d_in_axis cs (map (\<lambda>r. r ! 6) (tensor b))
        in Inr (map2 (\<lambda>c8 r. map (\<lambda>c. map2 (+) c (take 3 r)) c8) cs (tensor b)))"

text \<open>\<open>bev\<close>: columns 0, 1, 3, 4 and 6 of every row.\<close>

definition bev :: "DepthInstance3DBoxes \<Rightarrow> error + real list list" where
  "bev b =
     (if box_dim b < 7 then Inl IndexError
      else Inr (map (\<lambda>r. map (\<lambda>j. r ! j) [0, 1, 3, 4, 6]) (tensor b)))"

text \<open>
  \<open>nearest_bev\<close>: the rotation of every row is reduced to a period of \<open>pi\<close>; where its
  absolute value exceeds \<open>pi / 4\<close> the two sizes are swapped; the result is center
  minus and plus half the sizes.
\<close>

definition nearest_bev :: "DepthInstance3DBoxes \<Rightarrow> error + real list list" where
  "nearest_bev b =
     (case bev b of
        Inl e \<Rightarrow> Inl e
      | Inr bev_rotated_boxes \<Rightarrow>
          Inr (map (\<lambda>rb.
                 let normed_rotation = \<bar>limit_period (last rb) 0.5 pi\<bar>;
                     bbox_xywh = (if normed_rotation > pi / 4
                                  then map (\<lambda>j. rb ! j) [0, 1, 3, 2] else take 4 rb);
                     center = take 2 bbox_xywh;
                     dim = drop 2 bbox_xywh
                 in map2 (\<lambda>c d. c - d / 2) center dim @ map2 (\<lambda>c d. c + d / 2) center dim)
               bev_rotated_boxes))"

section \<open>In-place transforms\<close>

text \<open>
  The method \<open>rotate\<close>, named \<open>rotate_boxes\<close> here because lists already have a
  \<open>rotate\<close>. The writes happen in the order of the source: the centers first, then the
  yaw column (or, without yaw, the two horizontal sizes from the extent of the rotated
  corners), and only then is the \<open>points\<close> argument looked at. The second component of
  the result is the object as the call leaves it, also when the call raises.
\<close>

definition rotate_boxes ::
  "real \<Rightarrow> points_arg \<Rightarrow> DepthInstance3DBoxes
     \<Rightarrow> (error + (points_arg \<times> real list list) option) \<times> DepthInstance3DBoxes" where
  "rotate_boxes angle points b =
     (if box_dim b < 3 then (Inl RuntimeError, b)
      else
        let xyz = matmul (map (take 3) (tensor b)) (rot_mat_T angle);
            b = b\<lparr>tensor := map2 (\<lambda>c r. c @ drop 3 r) xyz (tensor b)\<rparr>;
            (err, b) =
              (if with_yaw b then
                 (if box_dim b < 7 then (Some IndexError, b)
                  else (None, b\<lparr>tensor := map (\<lambda>r. r[6 := r ! 6 - angle]) (tensor b)\<rparr>))
               else
                 (case corners b of
                    Inl e \<Rightarrow> (Some e, b)
                  | Inr cs \<Rightarrow>
                      let corners_rot = map (\<lambda>c8. matmul c8 (rot_mat_T angle)) cs;
                          new_x_size = map (\<lambda>c8. Max (set (map (\<lambda>c. c ! 0) c8))
                                                  - Min (set (map (\<lambda>c. c ! 0) c8))) corners_rot;
                          new_y_size = map (\<lambda>c8. Max (set (map (\<lambda>c. c ! 1) c8))
                                                  - Min (set (map (\<lambda>c. c ! 1) c8))) corners_rot
                      in (None, b\<lparr>tensor := map2 (\<lambda>(nx, ny) r. take 3 r @ [nx, ny] @ drop 5 r)
                                               (zip new_x_size new_y_size) (tensor b)\<rparr>)))
        in case err of
             Some e \<Rightarrow> (Inl e, b)
           | None \<Rightarrow>
               (case points of
                  PyNone \<Rightarrow> (Inr None, b)
                | Tensor pts \<Rightarrow>
                    if list_ex (\<lambda>p. length p < 3) pts then (Inl RuntimeError, b)
                    else (Inr (Some (Tensor (map2 (\<lambda>c p. c @ drop 3 p)
                                               (matmul (map (take 3) pts) (rot_mat_T angle)) pts),
                                     rot_mat_T angle)), b)
                | Ndarray pts \<Rightarrow>
                    if list_ex (\<lambda>p. length p < 3) pts then (Inl ValueError, b)
                    else (Inr (Some (Ndarray (map2 (\<lambda>c p. c @ drop 3 p)
                                                (matmul (map (take 3) pts) (rot_mat_T angle)) pts),
                                     rot_mat_T angle)), b)
                | Other \<Rightarrow> (Inl ValueError, b)))"

text \<open>
  The slice assignment \<open>t[:, k::7] = -t[:, k::7]\<close>: every column whose index is \<open>k\<close>,
  \<open>k + 7\<close>, \<open>k + 14\<close>, ... changes sign.
\<close>

definition neg_stride7 :: "nat \<Rightarrow> real list \<Rightarrow> real list" where
  "neg_stride7 k r = map (\<lambda>j. if k \<le> j \<and> (j - k) mod 7 = 0 then - (r ! j) else r ! j) [0..<length r]"

text \<open>\<open>points[:, k] = -points[:, k]\<close>; a point array without column \<open>k\<close> makes it fail.\<close>

definition neg_column :: "nat \<Rightarrow> real list list \<Rightarrow> error + real list list" where
  "neg_column k pts =
     (if list_ex (\<lambda>p. length p \<le> k) pts then Inl IndexError
      else Inr (map (\<lambda>p. p[k := - (p ! k)]) pts))"

text \<open>
  \<open>flip\<close>. The direction is asserted before anything is written; the \<open>points\<close> argument
  is asserted after the table has been written.
\<close>

definition flip ::
  "string \<Rightarrow> points_arg \<Rightarrow> DepthInstance3DBoxes \<Rightarrow> (error + points_arg) \<times> DepthInstance3DBoxes" where
  "flip bev_direction points b =
     (if bev_direction \<notin> {''horizontal'', ''vertical''} then (Inl AssertionError, b)
      else
        let k = (if bev_direction = ''horizontal'' then 0 else 1);
            b = b\<lparr>tensor := map (neg_stride7 k) (tensor b)\<rparr>;
            (err, b) =
              (if with_yaw b then
                 (if box_dim b < 7 then (Some IndexError, b)
                  else if bev_direction = ''horizontal''
                  then (None, b\<lparr>tensor := map (\<lambda>r. r[6 := - (r ! 6) + pi]) (tensor b)\<rparr>)
                  else (None, b\<lparr>tensor := map (\<lambda>r. r[6 := - (r ! 6)]) (tensor b)\<rparr>))
               else (None, b))
        in case err of
             Some e \<Rightarrow> (Inl e, b)
           | None \<Rightarrow>
               (case points of
                  PyNone \<Rightarrow> (Inr PyNone, b)
                | Tensor pts \<Rightarrow>
                    (case neg_column k pts of Inl e \<Rightarrow> (Inl e, b) | Inr pts' \<Rightarrow> (Inr (Tensor pts'), b))
                | Ndarray pts \<Rightarrow>
                    (case neg_column k pts of Inl e \<Rightarrow> (Inl e, b) | Inr pts' \<Rightarrow> (Inr (Ndarray pts'), b))
                | Other \<Rightarrow> (Inl AssertionError, b)))"

text \<open>
  \<open>in_range_bev\<close>: four strict comparisons per row. \<open>box_range\<close> is read at the indices
  0 to 3, the table at the columns 0 and 1.
\<close>

definition in_range_bev :: "real list \<Rightarrow> DepthInstance3DBoxes \<Rightarrow> error + bool list" where
  "in_range_bev box_range b =
     (if box_dim b < 2 \<or> length box_range < 4 then Inl IndexError
      else Inr (map (\<lambda>r. r ! 0 > box_range ! 0 \<and> r ! 1 > box_range ! 1
                        \<and> r ! 0 < box_range ! 2 \<and> r ! 1 < box_range ! 3) (tensor b)))"

section \<open>Containment query\<close>

datatype Box3DMode = LIDAR | CAM | DEPTH

text \<open>
  \<open>convert_to\<close> hands the object to \<^verbatim>\<open>Box3DMode.convert\<close> with source mode \<open>DEPTH\<close>. The
  conversion itself belongs to \<^verbatim>\<open>box_3d_mode.py\<close>, which is not part of the sources at
  hand, and is a parameter here.
\<close>

definition convert_to ::
  "(DepthInstance3DBoxes \<Rightarrow> Box3DMode \<Rightarrow> Box3DMode \<Rightarrow> real list list option \<Rightarrow> DepthInstance3DBoxes)
     \<Rightarrow> Box3DMode \<Rightarrow> real list list option \<Rightarrow> DepthInstance3DBoxes \<Rightarrow> DepthInstance3DBoxes" where
  "convert_to Box3DMode_convert dst rt_mat b = Box3DMode_convert b DEPTH dst rt_mat"

text \<open>
  The points handed to \<open>points_in_boxes\<close>: a two-dimensional array (its rows) or a
  three-dimensional one (a list of such arrays).
\<close>

datatype points_nd = Dim2 "real list list" | Dim3 "real list list list"

text \<open>\<open>t.squeeze(0)\<close>: the leading dimension goes away exactly when its size is 1.\<close>

datatype 'r squeezed = Squeezed 'r | Unsqueezed "'r list"

fun squeeze0 :: "'r list \<Rightarrow> 'r squeezed" where
  "squeeze0 [x] = Squeezed x"
| "squeeze0 xs = Unsqueezed xs"

text \<open>
  The reordering \<open>[..., [1, 0, 2]]\<close> followed by the sign change of the new column 1.
\<close>

definition to_lidar :: "real list \<Rightarrow> real list" where
  "to_lidar p = (map (\<lambda>j. p ! j) [1, 0, 2])[1 := - (p ! 0)]"

text \<open>
  \<open>points_in_boxes\<close>. The batched primitive \<open>points_in_boxes_batch\<close> of \<^verbatim>\<open>mmdet3d.ops\<close>
  is external and a parameter, as is the frame conversion.
\<close>

definition points_in_boxes ::
  "(DepthInstance3DBoxes \<Rightarrow> Box3DMode \<Rightarrow> Box3DMode \<Rightarrow> real list list option \<Rightarrow> DepthInstance3DBoxes)
     \<Rightarrow> (real list list list \<Rightarrow> real list list list \<Rightarrow> error + 'r list)
     \<Rightarrow> points_nd \<Rightarrow> DepthInstance3DBoxes \<Rightarrow> error + 'r squeezed" where
  "points_in_boxes Box3DMode_convert points_in_boxes_batch points b =
     (let rows = (case points of Dim2 ps \<Rightarrow> ps | Dim3 pss \<Rightarrow> concat pss)
      in if list_ex (\<lambda>p. length p < 3) rows then Inl IndexError
         else
           (case (case points of
                    Dim2 ps \<Rightarrow> Inr [map to_lidar ps]
                  | Dim3 pss \<Rightarrow>
                      if length pss = 1 then Inr (map (map to_lidar) pss) else Inl AssertionError) of
              Inl e \<Rightarrow> Inl e
            | Inr points_lidar \<Rightarrow>
                let boxes_lidar = [tensor (convert_to Box3DMode_convert LIDAR None b)]
                in (case points_in_boxes_batch points_lidar boxes_lidar of
                      Inl e \<Rightarrow> Inl e
                    | Inr box_idxs_of_pts \<Rightarrow> Inr (squeeze0 box_idxs_of_pts))))"

section \<open>Auxiliary notions\<close>

text \<open>
  The envelope property of \<open>nearest_bev\<close>. The vertices of the rotated bev rectangle of
  a box are the horizontal positions of its corners, and an axis-aligned rectangle
  \<open>(xmin, ymin, xmax, ymax)\<close> contains their bounding rectangle exactly when it contains
  each of them. The property holds for box \<open>i\<close> when both views return and the
  rectangle of the box contains every corner of the box.
\<close>

definition rect_contains :: "real list \<Rightarrow> real list \<Rightarrow> bool" where
  "rect_contains rect p \<longleftrightarrow> rect ! 0 \<le> p ! 0 \<and> p ! 0 \<le> rect ! 2 \<and> rect ! 1 \<le> p ! 1 \<and> p ! 1 \<le> rect ! 3"

definition nearest_bev_contains_corners :: "DepthInstance3DBoxes \<Rightarrow> nat \<Rightarrow> bool" where
  "nearest_bev_contains_corners b i =
     (case (nearest_bev b, corners b) of
        (Inr rects, Inr cs) \<Rightarrow> list_all (rect_contains (rects ! i)) (cs ! i)
      | _ \<Rightarrow> False)"

text \<open>
  Closed forms of what the operations do to one row; the lemmas of the next section
  relate them to the operations. \<open>rot_xyz\<close> is the row after the write of the rotated
  center, \<open>flip_k\<close> the first column of the stride slice of a direction, \<open>corner_of\<close>
  the corner of a row for one unit corner, \<open>nearest_row\<close> the rectangle of a row.
\<close>

definition rot_xyz :: "real \<Rightarrow> real list \<Rightarrow> real list" where
  "rot_xyz a r = [r ! 0 * cos a - r ! 1 * sin a, r ! 0 * sin a + r ! 1 * cos a, r ! 2] @ drop 3 r"

definition flip_k :: "string \<Rightarrow> nat" where
  "flip_k d = (if d = ''horizontal'' then 0 else 1)"

definition corner_of :: "real list \<Rightarrow> real list \<Rightarrow> real list" where
  "corner_of r cn =
     [r ! 3 * cn ! 0 * cos (r ! 6) - r ! 4 * cn ! 1 * sin (r ! 6) + r ! 0,
      r ! 3 * cn ! 0 * sin (r ! 6) + r ! 4 * cn ! 1 * cos (r ! 6) + r ! 1,
      r ! 5 * cn ! 2 + r ! 2]"

definition nearest_row :: "real list \<Rightarrow> real list" where
  "nearest_row r =
     (if \<bar>limit_period (r ! 6) 0.5 pi\<bar> > pi / 4
      then [r ! 0 - r ! 4 / 2, r ! 1 - r ! 3 / 2, r ! 0 + r ! 4 / 2, r ! 1 + r ! 3 / 2]
      else [r ! 0 - r ! 3 / 2, r ! 1 - r ! 4 / 2, r ! 0 + r ! 3 / 2, r ! 1 + r ! 4 / 2])"

section \<open>Concrete boxes\<close>

text \<open>
  A box with yaw 0; a box of a nine-column table, whose columns 7 and 8 are trailing
  attributes; the box with center \<open>(0, 0, 0)\<close>, size \<open>(2, 2, 2)\<close> and yaw 0; two boxes
  centered at \<open>(0.5, 0.5, 0)\<close> and \<open>(2, 0, 0)\<close>; and the box of size 2 turned by
  \<open>pi / 4\<close>.
\<close>

definition box_yaw0 :: DepthInstance3DBoxes where
  "box_yaw0 = \<lparr>tensor = [[1, 2, 3, 4, 5, 6, 0]], box_dim = 7, with_yaw = True\<rparr>"

definition box_velocity :: DepthInstance3DBoxes where
  "box_velocity = \<lparr>tensor = [[1, 2, 3, 4, 5, 6, 0, 9, 8]], box_dim = 9, with_yaw = True\<rparr>"

definition unit_box :: DepthInstance3DBoxes where
  "unit_box = \<lparr>tensor = [[0, 0, 0, 2, 2, 2, 0]], box_dim = 7, with_yaw = True\<rparr>"

definition range_boxes :: DepthInstance3DBoxes where
  "range_boxes = \<lparr>tensor = [[0.5, 0.5, 0, 1, 1, 1, 0], [2, 0, 0, 1, 1, 1, 0]],
                   box_dim = 7, with_yaw = True\<rparr>"

definition box_diagonal :: DepthInstance3DBoxes where
  "box_diagonal = \<lparr>tensor = [[0, 0, 0, 2, 2, 2, pi / 4]], box_dim = 7, with_yaw = True\<rparr>"

section \<open>Rows and cells\<close>

lemma mat_T_3x3: "mat_T [[a, b, c], [d, e, f], [g, h, i]] = [[a, d, g], [b, e, h], [c, f, i]]"
  by (simp add: mat_T_def upt_rec)

lemma rot_mat_T_eq: "rot_mat_T a = [[cos a, sin a, 0], [- sin a, cos a, 0], [0, 0, 1]]"
  by (simp add: rot_mat_T_def mat_T_3x3 Let_def)

lemma take3: "3 \<le> length r \<Longrightarrow> take 3 r = [r ! 0, r ! 1, r ! 2]"
  by (cases r; cases "tl r"; cases "tl (tl r)") (auto simp: numeral_3_eq_3)

lemma matmul_rot: "matmul A (rot_mat_T a) =
   map (\<lambda>r. [dot r [cos a, - sin a, 0], dot r [sin a, cos a, 0], dot r [0, 0, 1]]) A"
  by (simp add: matmul_def rot_mat_T_eq mat_T_3x3)

lemma dot3: "dot [x, y, z] [u, v, w] = x * u + y * v + z * w"
  by (simp add: dot_def)

lemma map2_map_same: "map2 f (map g xs) xs = map (\<lambda>x. f (g x) x) xs"
  by (induction xs) auto

lemma wf_row: "wf_boxes b \<Longrightarrow> i < length (tensor b) \<Longrightarrow> length (tensor b ! i) = box_dim b"
  by (simp add: wf_boxes_def list_all_length)

lemma wf_mem: "wf_boxes b \<Longrightarrow> r \<in> set (tensor b) \<Longrightarrow> length r = box_dim b"
  by (simp add: wf_boxes_def list_all_iff)

lemma wf_dim: "wf_boxes b \<Longrightarrow> 7 \<le> box_dim b"
  by (simp add: wf_boxes_def)

lemma rotate_centers:
  assumes "\<forall>r \<in> set rows. 3 \<le> length r"
  shows "map2 (\<lambda>c r. c @ drop 3 r) (matmul (map (take 3) rows) (rot_mat_T a)) rows = map (rot_xyz a) rows"
proof -
  have "map2 (\<lambda>c r. c @ drop 3 r) (matmul (map (take 3) rows) (rot_mat_T a)) rows
      = map (\<lambda>r. [dot (take 3 r) [cos a, - sin a, 0], dot (take 3 r) [sin a, cos a, 0],
                   dot (take 3 r) [0, 0, 1]] @ drop 3 r) rows"
    by (simp add: matmul_rot map2_map_same comp_def)
  also have "\<dots> = map (rot_xyz a) rows"
    using assms by (intro map_cong refl) (simp add: take3 dot3 rot_xyz_def)
  finally show ?thesis .
qed

lemma rotate_snd_yaw:
  assumes wf: "wf_boxes b" and y: "with_yaw b"
  shows "snd (rotate_boxes a pts b) = b\<lparr>tensor := map (\<lambda>r. (rot_xyz a r)[6 := r ! 6 - a]) (tensor b)\<rparr>"
proof -
  have 3: "\<forall>r \<in> set (tensor b). 3 \<le> length r"
    using wf_mem[OF wf] wf_dim[OF wf] by auto
  have 6: "rot_xyz a r ! 6 = r ! 6" if "r \<in> set (tensor b)" for r
    using wf_mem[OF wf that] wf_dim[OF wf] by (simp add: rot_xyz_def nth_append)
  have s1: "snd (rotate_boxes a pts b) =
      b\<lparr>tensor := map (\<lambda>r. r[6 := r ! 6 - a])
         (map2 (\<lambda>c r. c @ drop 3 r) (matmul (map (take 3) (tensor b)) (rot_mat_T a)) (tensor b))\<rparr>"
    using y wf_dim[OF wf]
    by (simp add: rotate_boxes_def Let_def split: points_arg.splits del: map_map map_eq_conv)
  have m: "map (\<lambda>r. r[6 := r ! 6 - a]) (map (rot_xyz a) (tensor b))
         = map (\<lambda>r. (rot_xyz a r)[6 := r ! 6 - a]) (tensor b)"
    by (simp add: 6)
  show ?thesis
    unfolding s1 rotate_centers[OF 3] m ..
qed

lemma rotate_cell:
  assumes wf: "wf_boxes b" and y: "with_yaw b" and i: "i < length (tensor b)" and j: "j < box_dim b"
  shows "tensor (snd (rotate_boxes a pts b)) ! i ! j =
     (if j = 0 then tensor b ! i ! 0 * cos a - tensor b ! i ! 1 * sin a
      else if j = 1 then tensor b ! i ! 0 * sin a + tensor b ! i ! 1 * cos a
      else if j = 6 then tensor b ! i ! 6 - a
      else tensor b ! i ! j)"
proof -
  have len: "length (tensor b ! i) = box_dim b" using wf i by (rule wf_row)
  have d: "7 \<le> box_dim b" using wf by (rule wf_dim)
  have l2: "length (rot_xyz a (tensor b ! i)) = box_dim b"
    using len d by (simp add: rot_xyz_def)
  have c: "rot_xyz a (tensor b ! i) ! j =
     (if j = 0 then tensor b ! i ! 0 * cos a - tensor b ! i ! 1 * sin a
      else if j = 1 then tensor b ! i ! 0 * sin a + tensor b ! i ! 1 * cos a
      else tensor b ! i ! j)"
  proof (cases "j < 3")
    case True
    then have "j = 0 \<or> j = 1 \<or> j = 2" by auto
    then show ?thesis by (auto simp: rot_xyz_def)
  next
    case False
    then have "3 + (j - 3) = j" by simp
    with False len j show ?thesis by (simp add: rot_xyz_def nth_append)
  qed
  have e: "tensor (snd (rotate_boxes a pts b)) ! i ! j =
       (if j = 6 then tensor b ! i ! 6 - a else rot_xyz a (tensor b ! i) ! j)"
    using i j l2 by (simp add: rotate_snd_yaw[OF wf y] nth_list_update)
  show ?thesis unfolding e c by simp
qed

lemma corners_ok: "7 \<le> box_dim b \<Longrightarrow> tensor b \<noteq> [] \<Longrightarrow> \<exists>cs. corners b = Inr cs"
  by (simp add: corners_def Let_def)

lemma rotate_fst_None:
  assumes "wf_boxes b" "with_yaw b \<or> tensor b \<noteq> []"
  shows "fst (rotate_boxes a PyNone b) = Inr None"
proof (cases "with_yaw b")
  case True
  then show ?thesis using wf_dim[OF assms(1)] by (simp add: rotate_boxes_def Let_def)
next
  case False
  let ?b1 = "b\<lparr>tensor := map2 (\<lambda>c r. c @ drop 3 r) (matmul (map (take 3) (tensor b)) (rot_mat_T a)) (tensor b)\<rparr>"
  from False assms(2) have "tensor ?b1 \<noteq> []" by (simp add: matmul_def)
  with wf_dim[OF assms(1)] obtain cs where "corners ?b1 = Inr cs"
    using corners_ok[of ?b1] by auto
  with False show ?thesis using wf_dim[OF assms(1)] by (simp add: rotate_boxes_def Let_def)
qed

lemma rotate_fst_Other:
  assumes "wf_boxes b" "with_yaw b \<or> tensor b \<noteq> []"
  shows "fst (rotate_boxes a Other b) = Inl ValueError"
proof (cases "with_yaw b")
  case True
  then show ?thesis using wf_dim[OF assms(1)] by (simp add: rotate_boxes_def Let_def)
next
  case False
  let ?b1 = "b\<lparr>tensor := map2 (\<lambda>c r. c @ drop 3 r) (matmul (map (take 3) (tensor b)) (rot_mat_T a)) (tensor b)\<rparr>"
  from False assms(2) have "tensor ?b1 \<noteq> []" by (simp add: matmul_def)
  with wf_dim[OF assms(1)] obtain cs where "corners ?b1 = Inr cs"
    using corners_ok[of ?b1] by auto
  with False show ?thesis using wf_dim[OF assms(1)] by (simp add: rotate_boxes_def Let_def)
qed

lemma rotate_snd_points: "snd (rotate_boxes a pts b) = snd (rotate_boxes a PyNone b)"
  by (simp add: rotate_boxes_def Let_def split: prod.splits sum.splits option.splits points_arg.splits)

lemma flip_snd_points: "snd (flip d pts b) = snd (flip d PyNone b)"
  by (simp add: flip_def Let_def split: prod.splits sum.splits option.splits points_arg.splits)

lemma length_neg_stride7: "length (neg_stride7 k r) = length r"
  by (simp add: neg_stride7_def)

lemma nth_neg_stride7:
  "j < length r \<Longrightarrow> neg_stride7 k r ! j = (if k \<le> j \<and> (j - k) mod 7 = 0 then - (r ! j) else r ! j)"
  by (simp add: neg_stride7_def)

lemma flip_snd:
  assumes "d \<in> {''horizontal'', ''vertical''}" "with_yaw b \<longrightarrow> 7 \<le> box_dim b"
  shows "snd (flip d pts b) =
     b\<lparr>tensor := map (\<lambda>r. if with_yaw b
                           then (neg_stride7 (flip_k d) r)[6 := (if d = ''horizontal'' then - (neg_stride7 (flip_k d) r ! 6) + pi else - (neg_stride7 (flip_k d) r ! 6))]
                           else neg_stride7 (flip_k d) r) (tensor b)\<rparr>"
  using assms
  by (auto simp: flip_def Let_def flip_k_def split: points_arg.splits sum.splits)

lemma flip_fst_None:
  assumes "d \<in> {''horizontal'', ''vertical''}" "with_yaw b \<longrightarrow> 7 \<le> box_dim b"
  shows "fst (flip d PyNone b) = Inr PyNone"
  using assms by (auto simp: flip_def Let_def)

lemma flip_fst_Other:
  assumes "d \<in> {''horizontal'', ''vertical''}" "with_yaw b \<longrightarrow> 7 \<le> box_dim b"
  shows "fst (flip d Other b) = Inl AssertionError"
  using assms by (auto simp: flip_def Let_def)

lemma flip_cell:
  assumes wf: "wf_boxes b" and d: "d \<in> {''horizontal'', ''vertical''}"
    and i: "i < length (tensor b)" and j: "j < box_dim b"
  shows "tensor (snd (flip d pts b)) ! i ! j =
     (if with_yaw b \<and> j = 6 then (if d = ''horizontal'' then pi - tensor b ! i ! 6 else - (tensor b ! i ! 6))
      else if flip_k d \<le> j \<and> (j - flip_k d) mod 7 = 0 then - (tensor b ! i ! j)
      else tensor b ! i ! j)"
proof -
  have len: "length (tensor b ! i) = box_dim b" using wf i by (rule wf_row)
  have dim: "with_yaw b \<longrightarrow> 7 \<le> box_dim b" using wf by (simp add: wf_boxes_def)
  have dim7: "6 < box_dim b" using wf by (simp add: wf_boxes_def)
  have k6: "neg_stride7 (flip_k d') (tensor b ! i) ! 6 = tensor b ! i ! 6" for d'
    using len dim7 by (simp add: nth_neg_stride7 flip_k_def)
  note snd_eq = flip_snd[OF d dim, of pts]
  show ?thesis
  proof (cases "with_yaw b")
    case False
    then show ?thesis using i j len by (simp add: snd_eq nth_neg_stride7)
  next
    case True
    show ?thesis
    proof (cases "j = 6")
      case True
      with \<open>with_yaw b\<close> show ?thesis
        using i len dim7 by (simp add: snd_eq k6 length_neg_stride7)
    next
      case False
      with \<open>with_yaw b\<close> show ?thesis
        using i j len by (simp add: snd_eq nth_neg_stride7 length_neg_stride7)
    qed
  qed
qed

lemma flip_wf:
  assumes wf: "wf_boxes b" and d: "d \<in> {''horizontal'', ''vertical''}"
  shows "wf_boxes (snd (flip d pts b))"
    and "box_dim (snd (flip d pts b)) = box_dim b"
    and "with_yaw (snd (flip d pts b)) = with_yaw b"
    and "length (tensor (snd (flip d pts b))) = length (tensor b)"
proof -
  have dim: "with_yaw b \<longrightarrow> 7 \<le> box_dim b" using wf by (simp add: wf_boxes_def)
  note e = flip_snd[OF d dim, of pts]
  show "wf_boxes (snd (flip d pts b))"
    using wf by (simp add: e wf_boxes_def list_all_iff length_neg_stride7)
  show "box_dim (snd (flip d pts b)) = box_dim b" by (simp add: e)
  show "with_yaw (snd (flip d pts b)) = with_yaw b" by (simp add: e)
  show "length (tensor (snd (flip d pts b))) = length (tensor b)" by (simp add: e)
qed

lemma rotate_wf:
  assumes wf: "wf_boxes b" and y: "with_yaw b"
  shows "wf_boxes (snd (rotate_boxes a pts b))"
    and "box_dim (snd (rotate_boxes a pts b)) = box_dim b"
    and "with_yaw (snd (rotate_boxes a pts b))"
    and "length (tensor (snd (rotate_boxes a pts b))) = length (tensor b)"
proof -
  note e = rotate_snd_yaw[OF wf y, of a pts]
  have "length (rot_xyz a r) = length r" if "3 \<le> length r" for r
    using that by (simp add: rot_xyz_def)
  then show "wf_boxes (snd (rotate_boxes a pts b))"
    using wf by (simp add: e wf_boxes_def list_all_iff)
  show "box_dim (snd (rotate_boxes a pts b)) = box_dim b" by (simp add: e)
  show "with_yaw (snd (rotate_boxes a pts b))" using y by (simp add: e)
  show "length (tensor (snd (rotate_boxes a pts b))) = length (tensor b)" by (simp add: e)
qed

lemma flip_twice_cell:
  assumes wf: "wf_boxes b" and d: "d \<in> {''horizontal'', ''vertical''}"
    and i: "i < length (tensor b)" and j: "j < box_dim b"
  shows "tensor (snd (flip d pts' (snd (flip d pts b)))) ! i ! j = tensor b ! i ! j"
proof -
  let ?b1 = "snd (flip d pts b)"
  note w1 = flip_wf[OF wf d, of pts]
  have i1: "i < length (tensor ?b1)" using i w1(4) by simp
  have j1: "j < box_dim ?b1" using j w1(2) by simp
  have 6: "6 < box_dim b" using wf_dim[OF wf] by simp
  have c6: "tensor ?b1 ! i ! 6 = (if with_yaw b then (if d = ''horizontal'' then pi - tensor b ! i ! 6 else - (tensor b ! i ! 6)) else tensor b ! i ! 6)"
    using flip_cell[OF wf d i 6, of pts] by (simp add: flip_k_def)
  show ?thesis
    unfolding flip_cell[OF w1(1) d i1 j1] w1(3) c6 flip_cell[OF wf d i j]
    by simp
qed

lemma corners_norm_eq:
  "corners_norm = [[- (1 / 2), - (1 / 2), 0], [- (1 / 2), - (1 / 2), 1], [- (1 / 2), 1 / 2, 1],
                   [- (1 / 2), 1 / 2, 0], [1 / 2, - (1 / 2), 0], [1 / 2, - (1 / 2), 1],
                   [1 / 2, 1 / 2, 1], [1 / 2, 1 / 2, 0]]"
  by (simp add: corners_norm_def unravel_index_def)

lemma take3_drop3: "6 \<le> length r \<Longrightarrow> take 3 (drop 3 r) = [r ! 3, r ! 4, r ! 5]"
  by (simp add: take3)

lemma row_corners:
  assumes "7 \<le> length r"
  shows "map (\<lambda>c. map2 (+) c (take 3 r))
           (matmul (map (\<lambda>cn. map2 (*) (take 3 (drop 3 r)) cn) corners_norm) (rot_mat_T (r ! 6)))
         = map (corner_of r) corners_norm"
  using assms
  by (simp add: take3 take3_drop3 matmul_rot corners_norm_eq dot3 corner_of_def)

lemma corners_rows:
  assumes wf: "wf_boxes b" and ne: "tensor b \<noteq> []"
  shows "corners b = Inr (map (\<lambda>r. map (corner_of r) corners_norm) (tensor b))"
proof -
  have len: "\<forall>r\<in>set (tensor b). 7 \<le> length r"
    using wf_mem[OF wf] wf_dim[OF wf] by auto
  have z: "map2 (\<lambda>c8 r. map (\<lambda>c. map2 (+) c (take 3 r)) c8)
             (map2 (\<lambda>ps a. matmul ps (rot_mat_T a))
                (map (\<lambda>d. map (\<lambda>cn. map2 (*) d cn) corners_norm) (map (\<lambda>r. take 3 (drop 3 r)) xs))
                (map (\<lambda>r. r ! 6) xs)) xs
         = map (\<lambda>r. map (\<lambda>c. map2 (+) c (take 3 r))
             (matmul (map (\<lambda>cn. map2 (*) (take 3 (drop 3 r)) cn) corners_norm) (rot_mat_T (r ! 6)))) xs"
    for xs :: "real list list"
    by (induction xs) simp_all
  have "corners b = Inr (map (\<lambda>r. map (\<lambda>c. map2 (+) c (take 3 r))
           (matmul (map (\<lambda>cn. map2 (*) (take 3 (drop 3 r)) cn) corners_norm) (rot_mat_T (r ! 6))))
           (tensor b))"
    using ne wf_dim[OF wf]
    by (simp add: corners_def Let_def dims_def rotation_3d_in_axis_def z del: map_map)
  also have "\<dots> = Inr (map (\<lambda>r. map (corner_of r) corners_norm) (tensor b))"
    using len by (simp add: row_corners cong: map_cong)
  finally show ?thesis .
qed

lemma gravity_rows:
  assumes wf: "wf_boxes b"
  shows "gravity_center b = Inr (map (\<lambda>r. [r ! 0, r ! 1, r ! 2 + r ! 5 / 2]) (tensor b))"
proof -
  have len: "\<forall>r\<in>set (tensor b). 3 \<le> length r"
    using wf_mem[OF wf] wf_dim[OF wf] by auto
  have "gravity_center b = Inr (map (\<lambda>r. take 2 (take 3 r) @ [take 3 r ! 2 + r ! 5 * 0.5]) (tensor b))"
    using wf_dim[OF wf] by (simp add: gravity_center_def bottom_center_def map2_map_same comp_def del: map_map)
  also have "\<dots> = Inr (map (\<lambda>r. [r ! 0, r ! 1, r ! 2 + r ! 5 / 2]) (tensor b))"
    using len by (simp add: take3 cong: map_cong)
  finally show ?thesis .
qed

lemma corner_heights:
  "map (\<lambda>c. c ! 2) (map (corner_of r) corners_norm)
     = [r ! 2, r ! 5 + r ! 2, r ! 5 + r ! 2, r ! 2, r ! 2, r ! 5 + r ! 2, r ! 5 + r ! 2, r ! 2]"
  by (simp add: corners_norm_eq corner_of_def)

lemma filter_heights:
  assumes "(h::real) \<noteq> 0"
  shows "length (filter (\<lambda>v. v = z) [z, h + z, h + z, z, z, h + z, h + z, z]) = 4"
    and "length (filter (\<lambda>v. v = z + h) [z, h + z, h + z, z, z, h + z, h + z, z]) = 4"
  using assms by (simp_all add: add.commute)

lemma length_filter_map: "length (filter (\<lambda>c. f c = v) cs) = length (filter (\<lambda>w. w = v) (map f cs))"
  by (induction cs) auto

lemma to_lidar_eq: "to_lidar p = [p ! 1, - (p ! 0), p ! 2]"
  by (simp add: to_lidar_def)

lemma nearest_bev_rows:
  assumes wf: "wf_boxes b"
  shows "nearest_bev b = Inr (map nearest_row (tensor b))"
  using wf_dim[OF wf]
  by (simp add: nearest_bev_def bev_def Let_def nearest_row_def comp_def)

lemma limit_period_sin0:
  assumes "sin y = 0"
  shows "limit_period y 0.5 pi = 0"
proof -
  from assms obtain k :: int where k: "y = of_int k * pi"
    using sin_zero_iff_int2 by blast
  have "y / pi + 0.5 = of_int k + 1 / 2" using k by simp
  then have "\<lfloor>y / pi + 0.5\<rfloor> = k" by (simp add: floor_unique)
  then show ?thesis using k by (simp add: limit_period_def)
qed

lemma limit_period_cos0:
  assumes "cos y = 0"
  shows "limit_period y 0.5 pi = - (pi / 2)"
proof -
  from assms obtain k :: int where k: "y = of_int k * pi + pi / 2"
    using cos_zero_iff_int2 by blast
  have "y / pi + 0.5 = of_int (k + 1)" using k by (simp add: field_simps)
  then have "\<lfloor>y / pi + 0.5\<rfloor> = k + 1" by (simp only: floor_of_int)
  then show ?thesis using k by (simp add: limit_period_def algebra_simps)
qed

lemma contain_iff:
  "list_all (rect_contains [x - w / 2, y - h / 2, x + w / 2, y + h / 2])
      (map (\<lambda>cn. [sx * cn ! 0 * c - sy * cn ! 1 * s + x, sx * cn ! 0 * s + sy * cn ! 1 * c + y, z cn]) corners_norm)
   \<longleftrightarrow> \<bar>sx * c\<bar> + \<bar>sy * s\<bar> \<le> w \<and> \<bar>sx * s\<bar> + \<bar>sy * c\<bar> \<le> h"
  by (simp add: corners_norm_eq rect_contains_def) argo

lemma abs_sum_le_one:
  fixes c s :: real
  assumes cs: "c * c + s * s = 1" and le: "\<bar>c\<bar> + \<bar>s\<bar> \<le> 1"
  shows "s = 0 \<or> c = 0"
proof -
  have "(\<bar>c\<bar> + \<bar>s\<bar>) * (\<bar>c\<bar> + \<bar>s\<bar>) \<le> 1 * 1"
    using le by (intro mult_mono) simp_all
  then have "c * c + s * s + 2 * (\<bar>c\<bar> * \<bar>s\<bar>) \<le> 1"
    by (simp add: algebra_simps)
  then have "\<bar>c\<bar> * \<bar>s\<bar> \<le> 0" using cs by simp
  moreover have "0 \<le> \<bar>c\<bar> * \<bar>s\<bar>" by simp
  ultimately have "\<bar>c\<bar> * \<bar>s\<bar> = 0" by (rule antisym)
  then show ?thesis by auto
qed

lemma envelope_forces_axis:
  fixes sx sy c s :: real
  assumes pos: "0 < sx" "0 < sy" and cs: "c * c + s * s = 1"
    and le: "\<bar>sx * c\<bar> + \<bar>sy * s\<bar> + (\<bar>sx * s\<bar> + \<bar>sy * c\<bar>) \<le> sx + sy"
  shows "s = 0 \<or> c = 0"
proof -
  have "(sx + sy) * (\<bar>c\<bar> + \<bar>s\<bar>) = \<bar>sx * c\<bar> + \<bar>sy * s\<bar> + (\<bar>sx * s\<bar> + \<bar>sy * c\<bar>)"
    using pos by (simp add: abs_mult algebra_simps)
  then have "(sx + sy) * (\<bar>c\<bar> + \<bar>s\<bar>) \<le> (sx + sy) * 1" using le by simp
  then have "\<bar>c\<bar> + \<bar>s\<bar> \<le> 1" using pos by (simp only: mult_le_cancel_left_pos add_pos_pos)
  with cs show ?thesis by (rule abs_sum_le_one)
qed

lemma abs_one_of_square:
  fixes c s :: real
  assumes "c * c + s * s = 1" "s = 0"
  shows "\<bar>c\<bar> = 1"
proof -
  from assms have "c\<^sup>2 = 1" by (simp add: power2_eq_square)
  then show ?thesis by (simp add: power2_eq_1_iff) argo
qed

lemma row_envelope:
  assumes pos: "0 < r ! 3" "0 < r ! 4"
  shows "list_all (rect_contains (nearest_row r)) (map (corner_of r) corners_norm)
         \<longleftrightarrow> sin (r ! 6) = 0 \<or> cos (r ! 6) = 0"
proof -
  let ?c = "cos (r ! 6)" and ?s = "sin (r ! 6)"
  have cs: "?c * ?c + ?s * ?s = 1" by simp
  have sc: "?s * ?s + ?c * ?c = 1" by (simp add: add.commute)
  have cf: "corner_of r = (\<lambda>cn. [r ! 3 * cn ! 0 * ?c - r ! 4 * cn ! 1 * ?s + r ! 0,
                                  r ! 3 * cn ! 0 * ?s + r ! 4 * cn ! 1 * ?c + r ! 1, r ! 5 * cn ! 2 + r ! 2])"
    by (rule ext) (simp add: corner_of_def)
  show ?thesis
  proof (cases "\<bar>limit_period (r ! 6) 0.5 pi\<bar> > pi / 4")
    case True
    then have nr: "nearest_row r = [r ! 0 - r ! 4 / 2, r ! 1 - r ! 3 / 2, r ! 0 + r ! 4 / 2, r ! 1 + r ! 3 / 2]"
      by (simp add: nearest_row_def)
    have s0: "?s \<noteq> 0" using True limit_period_sin0[of "r ! 6"] by auto
    show ?thesis
    proof
      assume "list_all (rect_contains (nearest_row r)) (map (corner_of r) corners_norm)"
      then have "\<bar>r ! 3 * ?c\<bar> + \<bar>r ! 4 * ?s\<bar> \<le> r ! 4 \<and> \<bar>r ! 3 * ?s\<bar> + \<bar>r ! 4 * ?c\<bar> \<le> r ! 3"
        unfolding nr cf contain_iff .
      then have "\<bar>r ! 3 * ?c\<bar> + \<bar>r ! 4 * ?s\<bar> + (\<bar>r ! 3 * ?s\<bar> + \<bar>r ! 4 * ?c\<bar>) \<le> r ! 3 + r ! 4"
        by linarith
      with pos cs show "?s = 0 \<or> ?c = 0" by (rule envelope_forces_axis)
    next
      assume "?s = 0 \<or> ?c = 0"
      with s0 have c0: "?c = 0" by simp
      then have "\<bar>?s\<bar> = 1" using abs_one_of_square[OF sc] by simp
      then have "\<bar>r ! 3 * ?c\<bar> + \<bar>r ! 4 * ?s\<bar> \<le> r ! 4 \<and> \<bar>r ! 3 * ?s\<bar> + \<bar>r ! 4 * ?c\<bar> \<le> r ! 3"
        using pos c0 by (simp add: abs_mult)
      then show "list_all (rect_contains (nearest_row r)) (map (corner_of r) corners_norm)"
        unfolding nr cf contain_iff .
    qed
  next
    case False
    then have nr: "nearest_row r = [r ! 0 - r ! 3 / 2, r ! 1 - r ! 4 / 2, r ! 0 + r ! 3 / 2, r ! 1 + r ! 4 / 2]"
      by (simp add: nearest_row_def)
    have c0: "?c \<noteq> 0"
    proof
      assume "?c = 0"
      then have "limit_period (r ! 6) 0.5 pi = - (pi / 2)" by (rule limit_period_cos0)
      with False show False using pi_gt_zero by simp
    qed
    show ?thesis
    proof
      assume "list_all (rect_contains (nearest_row r)) (map (corner_of r) corners_norm)"
      then have "\<bar>r ! 3 * ?c\<bar> + \<bar>r ! 4 * ?s\<bar> \<le> r ! 3 \<and> \<bar>r ! 3 * ?s\<bar> + \<bar>r ! 4 * ?c\<bar> \<le> r ! 4"
        unfolding nr cf contain_iff .
      then have "\<bar>r ! 3 * ?c\<bar> + \<bar>r ! 4 * ?s\<bar> + (\<bar>r ! 3 * ?s\<bar> + \<bar>r ! 4 * ?c\<bar>) \<le> r ! 3 + r ! 4"
        by linarith
      with pos cs show "?s = 0 \<or> ?c = 0" by (rule envelope_forces_axis)
    next
      assume "?s = 0 \<or> ?c = 0"
      with c0 have s0: "?s = 0" by simp
      then have "\<bar>?c\<bar> = 1" using abs_one_of_square[OF cs] by simp
      then have "\<bar>r ! 3 * ?c\<bar> + \<bar>r ! 4 * ?s\<bar> \<le> r ! 3 \<and> \<bar>r ! 3 * ?s\<bar> + \<bar>r ! 4 * ?c\<bar> \<le> r ! 4"
        using pos s0 by (simp add: abs_mult)
      then show "list_all (rect_contains (nearest_row r)) (map (corner_of r) corners_norm)"
        unfolding nr cf contain_iff .
    qed
  qed
qed

section \<open>Reflection\<close>

text \<open>
  C8. On a table with yaw, \<open>flip\<close> with direction \<open>horizontal\<close> negates column 0 of
  every row and replaces its yaw by \<open>pi - yaw\<close>; with direction \<open>vertical\<close> it negates
  column 1 and replaces the yaw by \<open>- yaw\<close>. Without points the call returns normally.
  Any other direction is rejected by the assertion, and the object is as before.
\<close>

theorem flip_directions:
  assumes "wf_boxes b" and "with_yaw b"
  shows "(\<forall>i<length (tensor b).
            tensor (snd (flip ''horizontal'' points b)) ! i ! 0 = - (tensor b ! i ! 0) \<and>
            tensor (snd (flip ''horizontal'' points b)) ! i ! 6 = pi - tensor b ! i ! 6 \<and>
            tensor (snd (flip ''vertical'' points b)) ! i ! 1 = - (tensor b ! i ! 1) \<and>
            tensor (snd (flip ''vertical'' points b)) ! i ! 6 = - (tensor b ! i ! 6))
       \<and> fst (flip ''horizontal'' PyNone b) = Inr PyNone
       \<and> fst (flip ''vertical'' PyNone b) = Inr PyNone
       \<and> (d \<notin> {''horizontal'', ''vertical''} \<longrightarrow> flip d points b = (Inl AssertionError, b))"
proof -
  have dim: "with_yaw b \<longrightarrow> 7 \<le> box_dim b" and 0: "0 < box_dim b" and 1: "1 < box_dim b"
    and 6: "6 < box_dim b"
    using wf_dim[OF assms(1)] by simp_all
  have h: "''horizontal'' \<in> {''horizontal'', ''vertical''}"
    and v: "''vertical'' \<in> {''horizontal'', ''vertical''}" by simp_all
  have cells: "tensor (snd (flip ''horizontal'' points b)) ! i ! 0 = - (tensor b ! i ! 0) \<and>
            tensor (snd (flip ''horizontal'' points b)) ! i ! 6 = pi - tensor b ! i ! 6 \<and>
            tensor (snd (flip ''vertical'' points b)) ! i ! 1 = - (tensor b ! i ! 1) \<and>
            tensor (snd (flip ''vertical'' points b)) ! i ! 6 = - (tensor b ! i ! 6)"
    if i: "i < length (tensor b)" for i
    using assms(2) flip_cell[OF assms(1) h i 0, of points] flip_cell[OF assms(1) h i 6, of points]
      flip_cell[OF assms(1) v i 1, of points] flip_cell[OF assms(1) v i 6, of points]
    by (simp add: flip_k_def)
  have rej: "d \<notin> {''horizontal'', ''vertical''} \<longrightarrow> flip d points b = (Inl AssertionError, b)"
    by (simp add: flip_def)
  show ?thesis
    using cells rej flip_fst_None[OF h dim] flip_fst_None[OF v dim] by blast
qed

text \<open>
  The box with yaw 0 and x-center 1: after the horizontal flip its yaw is \<open>pi\<close> and its
  x-center is \<open>- 1\<close>; the direction \<open>diagonal\<close> is rejected.
\<close>

theorem flip_directions_witness:
  "wf_boxes box_yaw0 \<and> with_yaw box_yaw0 \<and> 0 < length (tensor box_yaw0)
   \<and> tensor box_yaw0 ! 0 ! 0 = 1 \<and> tensor box_yaw0 ! 0 ! 6 = 0
   \<and> tensor (snd (flip ''horizontal'' PyNone box_yaw0)) ! 0 ! 0 = - 1
   \<and> tensor (snd (flip ''horizontal'' PyNone box_yaw0)) ! 0 ! 6 = pi
   \<and> ''diagonal'' \<notin> {''horizontal'', ''vertical''}
   \<and> flip ''diagonal'' PyNone box_yaw0 = (Inl AssertionError, box_yaw0)"
proof -
  have w: "wf_boxes box_yaw0" and y: "with_yaw box_yaw0"
    by (simp_all add: wf_boxes_def box_yaw0_def)
  show ?thesis
    using w y flip_directions[OF w y, of PyNone "''diagonal''"]
    by (simp add: box_yaw0_def)
qed

text \<open>
  C1, as the code has it. The slices \<open>0::7\<close> and \<open>1::7\<close> reach beyond the first seven
  columns: the horizontal flip negates every trailing column whose index is a multiple
  of 7 and leaves the other trailing columns unchanged; the vertical flip negates every
  trailing column whose index is 1 modulo 7 and leaves the others unchanged.
\<close>

theorem flip_trailing_columns:
  assumes "wf_boxes b" and "i < length (tensor b)" and "7 \<le> j" and "j < box_dim b"
  shows "tensor (snd (flip ''horizontal'' points b)) ! i ! j
           = (if j mod 7 = 0 then - (tensor b ! i ! j) else tensor b ! i ! j)
       \<and> tensor (snd (flip ''vertical'' points b)) ! i ! j
           = (if j mod 7 = 1 then - (tensor b ! i ! j) else tensor b ! i ! j)"
proof -
  have h: "''horizontal'' \<in> {''horizontal'', ''vertical''}"
    and v: "''vertical'' \<in> {''horizontal'', ''vertical''}" by simp_all
  have m: "(1 \<le> j \<and> (j - 1) mod 7 = 0) = (j mod 7 = 1)"
    using assms(3) by presburger
  show ?thesis
    using assms(3) m
    by (simp add: flip_cell[OF assms(1) h assms(2) assms(4)]
        flip_cell[OF assms(1) v assms(2) assms(4)] flip_k_def)
qed

theorem flip_trailing_columns_witness:
  "wf_boxes box_velocity \<and> (0::nat) < length (tensor box_velocity) \<and> (7::nat) \<le> 8 \<and> 8 < box_dim box_velocity
   \<and> tensor (snd (flip ''horizontal'' PyNone box_velocity)) ! 0 ! 8 = 8
   \<and> tensor (snd (flip ''vertical'' PyNone box_velocity)) ! 0 ! 8 = - 8"
proof -
  have w: "wf_boxes box_velocity" and i: "0 < length (tensor box_velocity)"
    and j: "8 < box_dim box_velocity"
    by (simp_all add: wf_boxes_def box_velocity_def)
  have 7: "(7::nat) \<le> 8" by simp
  show ?thesis
    using w i j flip_trailing_columns[OF w i 7 j, of PyNone]
    by (simp add: box_velocity_def)
qed

text \<open>
  In the nine-column table the horizontal flip changes the trailing column 7 and the
  vertical flip changes the trailing column 8.
\<close>

theorem flip_trailing_columns_counterexample:
  "tensor (snd (flip ''horizontal'' PyNone box_velocity)) ! 0 ! 7 \<noteq> tensor box_velocity ! 0 ! 7
   \<and> tensor (snd (flip ''vertical'' PyNone box_velocity)) ! 0 ! 8 \<noteq> tensor box_velocity ! 0 ! 8"
  by (simp add: flip_snd box_velocity_def nth_neg_stride7 flip_k_def)

text \<open>
  C5. Two flips in the same direction, horizontal or vertical, both return normally and
  bring every box's center (columns 0, 1, 2) and yaw (column 6) back to the stored
  values.
\<close>

theorem flip_twice:
  assumes "wf_boxes b" and "d \<in> {''horizontal'', ''vertical''}"
  shows "fst (flip d PyNone b) = Inr PyNone
       \<and> fst (flip d PyNone (snd (flip d PyNone b))) = Inr PyNone
       \<and> length (tensor (snd (flip d PyNone (snd (flip d PyNone b))))) = length (tensor b)
       \<and> (\<forall>i<length (tensor b). \<forall>j\<in>{0, 1, 2, 6}.
             tensor (snd (flip d PyNone (snd (flip d PyNone b)))) ! i ! j = tensor b ! i ! j)"
proof -
  let ?b1 = "snd (flip d PyNone b)"
  note w1 = flip_wf[OF assms, of PyNone]
  note w2 = flip_wf[OF w1(1) assms(2), of PyNone]
  have dim: "with_yaw b \<longrightarrow> 7 \<le> box_dim b" and dim1: "with_yaw ?b1 \<longrightarrow> 7 \<le> box_dim ?b1"
    using wf_dim[OF assms(1)] wf_dim[OF w1(1)] by simp_all
  have cells: "tensor (snd (flip d PyNone ?b1)) ! i ! j = tensor b ! i ! j"
    if "i < length (tensor b)" "j \<in> {0, 1, 2, 6}" for i j
  proof -
    from that(2) wf_dim[OF assms(1)] have "j < box_dim b" by auto
    with that(1) show ?thesis by (rule flip_twice_cell[OF assms])
  qed
  show ?thesis
    using cells flip_fst_None[OF assms(2) dim] flip_fst_None[OF assms(2) dim1] w2(4) w1(4)
    by simp
qed

theorem flip_twice_witness:
  "wf_boxes box_yaw0 \<and> ''horizontal'' \<in> {''horizontal'', ''vertical''}
   \<and> (0::nat) < length (tensor box_yaw0) \<and> (6::nat) \<in> {0, 1, 2, 6}
   \<and> tensor (snd (flip ''horizontal'' PyNone box_yaw0)) ! 0 ! 6 = pi
   \<and> tensor (snd (flip ''horizontal'' PyNone (snd (flip ''horizontal'' PyNone box_yaw0)))) ! 0 ! 6 = 0"
proof -
  have w: "wf_boxes box_yaw0" by (simp add: wf_boxes_def box_yaw0_def)
  have h: "''horizontal'' \<in> {''horizontal'', ''vertical''}" by simp
  have p: "tensor (snd (flip ''horizontal'' PyNone box_yaw0)) ! 0 ! 6 = pi"
    by (simp add: flip_snd box_yaw0_def nth_neg_stride7 length_neg_stride7 flip_k_def)
  show ?thesis
    using w p flip_twice[OF w h] by (simp add: box_yaw0_def)
qed

section \<open>Rotation\<close>

text \<open>
  C10. On a table with yaw, \<open>rotate_boxes\<close> keeps the shape of the table and changes no
  cell outside the columns 0, 1 and 6: the z-coordinate, the three sizes and every
  trailing attribute stay as they are, whatever the angle and the points argument.
\<close>

theorem rotate_frame:
  assumes "wf_boxes b" and "with_yaw b"
  shows "length (tensor (snd (rotate_boxes angle points b))) = length (tensor b)
       \<and> (\<forall>i<length (tensor b).
             length (tensor (snd (rotate_boxes angle points b)) ! i) = box_dim b
           \<and> (\<forall>j<box_dim b. j \<notin> {0, 1, 6} \<longrightarrow>
                 tensor (snd (rotate_boxes angle points b)) ! i ! j = tensor b ! i ! j))"
proof -
  note w1 = rotate_wf[OF assms, of angle points]
  have len: "length (tensor (snd (rotate_boxes angle points b)) ! i) = box_dim b"
    if "i < length (tensor b)" for i
    using wf_row[OF w1(1), of i] that w1(2) w1(4) by simp
  have cells: "tensor (snd (rotate_boxes angle points b)) ! i ! j = tensor b ! i ! j"
    if "i < length (tensor b)" "j < box_dim b" "j \<notin> {0, 1, 6}" for i j
    using that(3) by (simp add: rotate_cell[OF assms that(1) that(2)])
  show ?thesis using w1(4) len cells by blast
qed

theorem rotate_frame_witness:
  "wf_boxes box_velocity \<and> with_yaw box_velocity \<and> (0::nat) < length (tensor box_velocity)
   \<and> (7::nat) < box_dim box_velocity \<and> (7::nat) \<notin> {0, 1, 6}
   \<and> tensor (snd (rotate_boxes (pi / 2) PyNone box_velocity)) ! 0 ! 2 = 3
   \<and> tensor (snd (rotate_boxes (pi / 2) PyNone box_velocity)) ! 0 ! 7 = 9"
proof -
  have w: "wf_boxes box_velocity" and y: "with_yaw box_velocity"
    by (simp_all add: wf_boxes_def box_velocity_def)
  show ?thesis
    using w y rotate_frame[OF w y, of "pi / 2" PyNone]
    by (simp add: box_velocity_def)
qed

text \<open>
  C4. On a table with yaw, rotating by \<open>a\<close> and then by \<open>- a\<close> (both calls return
  normally) restores the three center coordinates and the yaw of every box, exactly.
\<close>

theorem rotate_then_back:
  assumes "wf_boxes b" and "with_yaw b"
  shows "fst (rotate_boxes a PyNone b) = Inr None
       \<and> fst (rotate_boxes (- a) PyNone (snd (rotate_boxes a PyNone b))) = Inr None
       \<and> (\<forall>i<length (tensor b). \<forall>j\<in>{0, 1, 2, 6}.
             tensor (snd (rotate_boxes (- a) PyNone (snd (rotate_boxes a PyNone b)))) ! i ! j
               = tensor b ! i ! j)"
proof -
  let ?b1 = "snd (rotate_boxes a PyNone b)"
  note w1 = rotate_wf[OF assms, of a PyNone]
  have sc: "x * (cos a * cos a) + x * (sin a * sin a) = x" for x :: real
  proof -
    have one: "cos a * cos a + sin a * sin a = 1"
      using sin_cos_squared_add2[of a] by (simp add: power2_eq_square)
    have "x * (cos a * cos a) + x * (sin a * sin a) = x * (cos a * cos a + sin a * sin a)"
      by (simp only: distrib_left)
    then show ?thesis by (simp only: one mult_1_right)
  qed
  have cells: "tensor (snd (rotate_boxes (- a) PyNone ?b1)) ! i ! j = tensor b ! i ! j"
    if i: "i < length (tensor b)" and j: "j \<in> {0, 1, 2, 6}" for i j
  proof -
    have jd: "j < box_dim b" and 0: "0 < box_dim b" and 1: "1 < box_dim b" and 6: "6 < box_dim b"
      using j wf_dim[OF assms(1)] by auto
    have i1: "i < length (tensor ?b1)" using i w1(4) by simp
    have j1: "j < box_dim ?b1" "0 < box_dim ?b1" "1 < box_dim ?b1" "6 < box_dim ?b1"
      using jd 0 1 6 w1(2) by simp_all
    let ?x = "tensor b ! i ! 0" and ?y = "tensor b ! i ! 1"
    have x1: "tensor ?b1 ! i ! 0 = ?x * cos a - ?y * sin a"
      using rotate_cell[OF assms i 0, of a PyNone] by simp
    have y1: "tensor ?b1 ! i ! 1 = ?x * sin a + ?y * cos a"
      using rotate_cell[OF assms i 1, of a PyNone] by simp
    have t1: "tensor ?b1 ! i ! 6 = tensor b ! i ! 6 - a"
      using rotate_cell[OF assms i 6, of a PyNone] by simp
    have xb: "(?x * cos a - ?y * sin a) * cos a + (?x * sin a + ?y * cos a) * sin a = ?x"
      using sc[of ?x] by (simp add: algebra_simps)
    have yb: "(?x * sin a + ?y * cos a) * cos a - (?x * cos a - ?y * sin a) * sin a = ?y"
      using sc[of ?y] by (simp add: algebra_simps)
    let ?b2 = "snd (rotate_boxes (- a) PyNone ?b1)"
    have x2: "tensor ?b2 ! i ! 0 = tensor ?b1 ! i ! 0 * cos a + tensor ?b1 ! i ! 1 * sin a"
      using rotate_cell[OF w1(1) w1(3) i1 j1(2), of "- a" PyNone] by simp
    have y2: "tensor ?b2 ! i ! 1 = tensor ?b1 ! i ! 1 * cos a - tensor ?b1 ! i ! 0 * sin a"
      using rotate_cell[OF w1(1) w1(3) i1 j1(3), of "- a" PyNone] by simp
    have z2: "tensor ?b2 ! i ! 2 = tensor b ! i ! 2"
      using rotate_cell[OF w1(1) w1(3) i1, of 2 "- a" PyNone]
        rotate_cell[OF assms i, of 2 a PyNone] wf_dim[OF assms(1)] w1(2) by simp
    have t2: "tensor ?b2 ! i ! 6 = tensor ?b1 ! i ! 6 + a"
      using rotate_cell[OF w1(1) w1(3) i1 j1(4), of "- a" PyNone] by simp
    have "tensor ?b2 ! i ! 0 = ?x" unfolding x2 x1 y1 by (rule xb)
    moreover have "tensor ?b2 ! i ! 1 = ?y" unfolding y2 x1 y1 by (rule yb)
    moreover have "tensor ?b2 ! i ! 6 = tensor b ! i ! 6" unfolding t2 t1 by simp
    ultimately show ?thesis using j z2 by auto
  qed
  have r1: "fst (rotate_boxes a PyNone b) = Inr None"
    using assms by (simp add: rotate_fst_None)
  have r2: "fst (rotate_boxes (- a) PyNone ?b1) = Inr None"
    using w1 by (simp add: rotate_fst_None)
  show ?thesis using r1 r2 cells by blast
qed

theorem rotate_then_back_witness:
  "wf_boxes box_yaw0 \<and> with_yaw box_yaw0 \<and> (0::nat) < length (tensor box_yaw0)
   \<and> (0::nat) \<in> {0, 1, 2, 6}
   \<and> tensor (snd (rotate_boxes (pi / 2) PyNone box_yaw0)) ! 0 ! 0 = - 2
   \<and> tensor (snd (rotate_boxes (- (pi / 2)) PyNone (snd (rotate_boxes (pi / 2) PyNone box_yaw0)))) ! 0 ! 0 = 1"
proof -
  have w: "wf_boxes box_yaw0" and y: "with_yaw box_yaw0"
    by (simp_all add: wf_boxes_def box_yaw0_def)
  have i: "0 < length (tensor box_yaw0)" and 0: "0 < box_dim box_yaw0"
    by (simp_all add: box_yaw0_def)
  have p: "tensor (snd (rotate_boxes (pi / 2) PyNone box_yaw0)) ! 0 ! 0 = - 2"
    using rotate_cell[OF w y i 0, of "pi / 2" PyNone] by (simp add: box_yaw0_def)
  show ?thesis
    using w y p rotate_then_back[OF w y, of "pi / 2"] by (simp add: box_yaw0_def)
qed

section \<open>Corners and gravity center\<close>

text \<open>
  C6. For a non-empty table, \<open>corners\<close> and \<open>gravity_center\<close> return, and for every
  box the corners 0, 3, 4, 7 have the stored z, the corners 1, 2, 5, 6 have the stored z
  plus \<open>z_size\<close> (so, with a non-zero \<open>z_size\<close>, exactly four corners are at each
  height), and the mean of the eight heights is the z of the gravity center, the stored
  z plus half of \<open>z_size\<close>. The box with center \<open>(0, 0, 0)\<close>, size \<open>(2, 2, 2)\<close> and yaw 0
  has the corners \<open>(\<plusminus>1, \<plusminus>1, {0, 2})\<close> and the gravity center \<open>(0, 0, 1)\<close>.
\<close>

theorem corners_heights:
  assumes "wf_boxes b" and "tensor b \<noteq> []"
  shows "(case (corners b, gravity_center b) of
            (Inr cs, Inr gc) \<Rightarrow>
               length cs = length (tensor b) \<and> length gc = length (tensor b) \<and>
               (\<forall>i<length (tensor b).
                   length (cs ! i) = 8 \<and>
                   (\<forall>k\<in>{0, 3, 4, 7}. cs ! i ! k ! 2 = tensor b ! i ! 2) \<and>
                   (\<forall>k\<in>{1, 2, 5, 6}. cs ! i ! k ! 2 = tensor b ! i ! 2 + tensor b ! i ! 5) \<and>
                   (tensor b ! i ! 5 \<noteq> 0 \<longrightarrow>
                      length (filter (\<lambda>c. c ! 2 = tensor b ! i ! 2) (cs ! i)) = 4 \<and>
                      length (filter (\<lambda>c. c ! 2 = tensor b ! i ! 2 + tensor b ! i ! 5) (cs ! i)) = 4) \<and>
                   sum_list (map (\<lambda>c. c ! 2) (cs ! i)) / 8 = gc ! i ! 2 \<and>
                   gc ! i ! 2 = tensor b ! i ! 2 + tensor b ! i ! 5 / 2)
          | _ \<Rightarrow> False)
       \<and> corners unit_box = Inr [[[- 1, - 1, 0], [- 1, - 1, 2], [- 1, 1, 2], [- 1, 1, 0],
                                  [1, - 1, 0], [1, - 1, 2], [1, 1, 2], [1, 1, 0]]]
       \<and> gravity_center unit_box = Inr [[0, 0, 1]]"
proof -
  let ?cs = "map (\<lambda>r. map (corner_of r) corners_norm) (tensor b)"
  let ?gc = "map (\<lambda>r. [r ! 0, r ! 1, r ! 2 + r ! 5 / 2]) (tensor b)"
  have box: "length (?cs ! i) = 8 \<and>
        (\<forall>k\<in>{0, 3, 4, 7}. ?cs ! i ! k ! 2 = tensor b ! i ! 2) \<and>
        (\<forall>k\<in>{1, 2, 5, 6}. ?cs ! i ! k ! 2 = tensor b ! i ! 2 + tensor b ! i ! 5) \<and>
        (tensor b ! i ! 5 \<noteq> 0 \<longrightarrow>
           length (filter (\<lambda>c. c ! 2 = tensor b ! i ! 2) (?cs ! i)) = 4 \<and>
           length (filter (\<lambda>c. c ! 2 = tensor b ! i ! 2 + tensor b ! i ! 5) (?cs ! i)) = 4) \<and>
        sum_list (map (\<lambda>c. c ! 2) (?cs ! i)) / 8 = ?gc ! i ! 2 \<and>
        ?gc ! i ! 2 = tensor b ! i ! 2 + tensor b ! i ! 5 / 2"
    if i: "i < length (tensor b)" for i
  proof -
    let ?r = "tensor b ! i"
    have ci: "?cs ! i = map (corner_of ?r) corners_norm" and gi: "?gc ! i = [?r ! 0, ?r ! 1, ?r ! 2 + ?r ! 5 / 2]"
      using i by simp_all
    have l8: "length (map (corner_of ?r) corners_norm) = 8" by (simp add: corners_norm_eq)
    have bot: "\<forall>k\<in>{0, 3, 4, 7}. map (corner_of ?r) corners_norm ! k ! 2 = ?r ! 2"
      by (simp add: corners_norm_eq corner_of_def)
    have top: "\<forall>k\<in>{1, 2, 5, 6}. map (corner_of ?r) corners_norm ! k ! 2 = ?r ! 2 + ?r ! 5"
      by (simp add: corners_norm_eq corner_of_def)
    have cnt: "?r ! 5 \<noteq> 0 \<longrightarrow>
        length (filter (\<lambda>c. c ! 2 = ?r ! 2) (map (corner_of ?r) corners_norm)) = 4 \<and>
        length (filter (\<lambda>c. c ! 2 = ?r ! 2 + ?r ! 5) (map (corner_of ?r) corners_norm)) = 4"
      unfolding length_filter_map[of "\<lambda>c. c ! 2"] corner_heights
      using filter_heights[of "?r ! 5" "?r ! 2"] by blast
    have mean: "sum_list (map (\<lambda>c. c ! 2) (map (corner_of ?r) corners_norm)) / 8 = ?r ! 2 + ?r ! 5 / 2"
      unfolding corner_heights by simp
    show ?thesis unfolding ci gi using l8 bot top cnt mean by simp
  qed
  have w: "wf_boxes unit_box" and n: "tensor unit_box \<noteq> []"
    by (simp_all add: wf_boxes_def unit_box_def)
  have c1: "corners unit_box = Inr [[[- 1, - 1, 0], [- 1, - 1, 2], [- 1, 1, 2], [- 1, 1, 0],
                                  [1, - 1, 0], [1, - 1, 2], [1, 1, 2], [1, 1, 0]]]"
    unfolding corners_rows[OF w n] by (simp add: unit_box_def corners_norm_eq corner_of_def)
  have g1: "gravity_center unit_box = Inr [[0, 0, 1]]"
    unfolding gravity_rows[OF w] by (simp add: unit_box_def)
  have lens: "length ?cs = length (tensor b)" "length ?gc = length (tensor b)"
    by simp_all
  show ?thesis
    unfolding corners_rows[OF assms] gravity_rows[OF assms(1)] prod.case sum.case
    using lens box c1 g1 by blast
qed

theorem corners_heights_witness:
  "wf_boxes unit_box \<and> tensor unit_box \<noteq> [] \<and> (0::nat) < length (tensor unit_box)
   \<and> tensor unit_box ! 0 ! 5 \<noteq> 0
   \<and> (case (corners unit_box, gravity_center unit_box) of
         (Inr cs, Inr gc) \<Rightarrow>
            cs ! 0 ! 0 ! 2 = 0 \<and> cs ! 0 ! 1 ! 2 = 2
            \<and> length (filter (\<lambda>c. c ! 2 = 0) (cs ! 0)) = 4
            \<and> sum_list (map (\<lambda>c. c ! 2) (cs ! 0)) / 8 = 1 \<and> gc ! 0 ! 2 = 1
       | _ \<Rightarrow> False)"
proof -
  have w: "wf_boxes unit_box" and n: "tensor unit_box \<noteq> []"
    by (simp_all add: wf_boxes_def unit_box_def)
  show ?thesis
    using w n corners_heights[OF w n] by (simp add: unit_box_def)
qed

section \<open>Points of an unsupported kind\<close>

text \<open>
  C2, as the code has it. With a points argument that is neither a tensor nor an array,
  \<open>rotate_boxes\<close> raises \<open>ValueError\<close> and \<open>flip\<close> raises \<open>AssertionError\<close>, but the
  argument is looked at only after the table has been written: the object the failed
  call leaves is the object the same call without points leaves, and that call returns
  normally. (Without yaw, \<open>rotate_boxes\<close> on an empty table fails earlier, in \<open>corners\<close>.)
\<close>

theorem points_checked_after_write:
  assumes "wf_boxes b"
  shows "(with_yaw b \<or> tensor b \<noteq> [] \<longrightarrow>
            rotate_boxes a Other b = (Inl ValueError, snd (rotate_boxes a PyNone b))
          \<and> fst (rotate_boxes a PyNone b) = Inr None)
       \<and> (d \<in> {''horizontal'', ''vertical''} \<longrightarrow>
            flip d Other b = (Inl AssertionError, snd (flip d PyNone b))
          \<and> fst (flip d PyNone b) = Inr PyNone)"
proof -
  have dim: "with_yaw b \<longrightarrow> 7 \<le> box_dim b" using wf_dim[OF assms] by simp
  have r: "rotate_boxes a Other b = (Inl ValueError, snd (rotate_boxes a PyNone b))
          \<and> fst (rotate_boxes a PyNone b) = Inr None"
    if "with_yaw b \<or> tensor b \<noteq> []"
    using rotate_fst_Other[OF assms that, of a] rotate_fst_None[OF assms that, of a]
      rotate_snd_points[of a Other b]
    by (simp add: prod_eq_iff)
  have f: "flip d Other b = (Inl AssertionError, snd (flip d PyNone b))
          \<and> fst (flip d PyNone b) = Inr PyNone"
    if "d \<in> {''horizontal'', ''vertical''}"
    using flip_fst_Other[OF that dim] flip_fst_None[OF that dim] flip_snd_points[of d Other b]
    by (simp add: prod_eq_iff)
  show ?thesis using r f by blast
qed

theorem points_checked_after_write_witness:
  "wf_boxes box_yaw0 \<and> (with_yaw box_yaw0 \<or> tensor box_yaw0 \<noteq> [])
   \<and> ''horizontal'' \<in> {''horizontal'', ''vertical''}
   \<and> rotate_boxes pi Other box_yaw0 = (Inl ValueError, box_yaw0\<lparr>tensor := [[- 1, - 2, 3, 4, 5, 6, - pi]]\<rparr>)
   \<and> flip ''horizontal'' Other box_yaw0 = (Inl AssertionError, box_yaw0\<lparr>tensor := [[- 1, 2, 3, 4, 5, 6, pi]]\<rparr>)"
proof -
  have w: "wf_boxes box_yaw0" and y: "with_yaw box_yaw0"
    by (simp_all add: wf_boxes_def box_yaw0_def)
  have r: "snd (rotate_boxes pi PyNone box_yaw0) = box_yaw0\<lparr>tensor := [[- 1, - 2, 3, 4, 5, 6, - pi]]\<rparr>"
    unfolding rotate_snd_yaw[OF w y] by (simp add: box_yaw0_def rot_xyz_def)
  have f: "snd (flip ''horizontal'' PyNone box_yaw0) = box_yaw0\<lparr>tensor := [[- 1, 2, 3, 4, 5, 6, pi]]\<rparr>"
    by (simp add: flip_snd box_yaw0_def neg_stride7_def flip_k_def upt_rec)
  show ?thesis
    using w y points_checked_after_write[OF w, of pi "''horizontal''"]
    by (simp add: r f)
qed

text \<open>
  Rotating the box with yaw 0 by \<open>pi\<close>, or flipping it horizontally, with such a points
  argument raises and leaves a table that differs from the stored one.
\<close>

theorem points_checked_after_write_counterexample:
  "fst (rotate_boxes pi Other box_yaw0) = Inl ValueError
   \<and> tensor (snd (rotate_boxes pi Other box_yaw0)) \<noteq> tensor box_yaw0
   \<and> fst (flip ''horizontal'' Other box_yaw0) = Inl AssertionError
   \<and> tensor (snd (flip ''horizontal'' Other box_yaw0)) \<noteq> tensor box_yaw0"
proof -
  have w: "wf_boxes box_yaw0" and y: "with_yaw box_yaw0"
    by (simp_all add: wf_boxes_def box_yaw0_def)
  have r: "snd (rotate_boxes pi Other box_yaw0) = box_yaw0\<lparr>tensor := [[- 1, - 2, 3, 4, 5, 6, - pi]]\<rparr>"
    unfolding rotate_snd_yaw[OF w y] by (simp add: box_yaw0_def rot_xyz_def)
  have f: "snd (flip ''horizontal'' Other box_yaw0) = box_yaw0\<lparr>tensor := [[- 1, 2, 3, 4, 5, 6, pi]]\<rparr>"
    by (simp add: flip_snd box_yaw0_def neg_stride7_def flip_k_def upt_rec)
  have r1: "fst (rotate_boxes pi Other box_yaw0) = Inl ValueError"
    by (simp add: rotate_boxes_def Let_def box_yaw0_def)
  have f1: "fst (flip ''horizontal'' Other box_yaw0) = Inl AssertionError"
    by (simp add: flip_def Let_def box_yaw0_def)
  show ?thesis unfolding r f r1 f1 by (simp add: box_yaw0_def)
qed

section \<open>Range test\<close>

text \<open>
  C7. \<open>in_range_bev\<close> returns one flag per box, and the flag is true exactly when the
  stored center satisfies \<open>xmin < cx < xmax\<close> and \<open>ymin < cy < ymax\<close>. With the range
  \<open>[-1, -1, 1, 1]\<close> the box centered at \<open>(0.5, 0.5, 0)\<close> gives true and the box
  centered at \<open>(2, 0, 0)\<close> gives false.
\<close>

theorem in_range_bev_strict:
  assumes "wf_boxes b"
  shows "(case in_range_bev [xmin, ymin, xmax, ymax] b of
            Inl e \<Rightarrow> False
          | Inr flags \<Rightarrow>
              length flags = length (tensor b) \<and>
              (\<forall>i<length (tensor b).
                 flags ! i = (xmin < tensor b ! i ! 0 \<and> tensor b ! i ! 0 < xmax
                            \<and> ymin < tensor b ! i ! 1 \<and> tensor b ! i ! 1 < ymax)))
       \<and> in_range_bev [- 1, - 1, 1, 1] range_boxes = Inr [True, False]"
proof -
  have d: "\<not> box_dim b < 2" using wf_dim[OF assms] by simp
  have g: "in_range_bev [- 1, - 1, 1, 1] range_boxes = Inr [True, False]"
    by (simp add: in_range_bev_def range_boxes_def)
  show ?thesis using d g by (auto simp: in_range_bev_def)
qed

theorem in_range_bev_strict_witness:
  "wf_boxes range_boxes \<and> (0::nat) < length (tensor range_boxes) \<and> (1::nat) < length (tensor range_boxes)
   \<and> (case in_range_bev [- 1, - 1, 1, 1] range_boxes of
         Inl e \<Rightarrow> False
       | Inr flags \<Rightarrow> length flags = 2 \<and> flags ! 0 = True \<and> flags ! 1 = False)"
proof -
  have w: "wf_boxes range_boxes" by (simp add: wf_boxes_def range_boxes_def)
  show ?thesis
    using w in_range_bev_strict[OF w, of "- 1" "- 1" 1 1] by (simp add: range_boxes_def)
qed

section \<open>Frame of the containment query\<close>

text \<open>
  C9. For points of shape \<open>M \<times> 3\<close>, \<open>points_in_boxes\<close> hands the batched primitive the
  one-element batch of the points mapped by new axis 0 = old axis 1, new axis 1 =
  minus old axis 0, axis 2 unchanged, together with the one-element batch of the
  converted boxes, and squeezes the leading dimension of what the primitive returns;
  the same points given as \<open>1 \<times> M \<times> 3\<close> give the same result; a three-dimensional
  input whose leading dimension is not 1 is rejected. The primitive and the frame
  conversion are arbitrary.
\<close>

theorem points_in_boxes_frame:
  assumes "list_all (\<lambda>p. length p = 3) ps"
  shows "points_in_boxes conv batch (Dim2 ps) b
           = (case batch [map (\<lambda>p. [p ! 1, - (p ! 0), p ! 2]) ps] [tensor (conv b DEPTH LIDAR None)] of
                Inl e \<Rightarrow> Inl e
              | Inr out \<Rightarrow> Inr (squeeze0 out))
       \<and> points_in_boxes conv batch (Dim3 [ps]) b = points_in_boxes conv batch (Dim2 ps) b
       \<and> (batch [map (\<lambda>p. [p ! 1, - (p ! 0), p ! 2]) ps] [tensor (conv b DEPTH LIDAR None)] = Inr [x]
            \<longrightarrow> points_in_boxes conv batch (Dim2 ps) b = Inr (Squeezed x))
       \<and> (length pss \<noteq> 1 \<longrightarrow>
            points_in_boxes conv batch (Dim3 pss) b
              = Inl (if list_ex (\<lambda>p. length p < 3) (concat pss) then IndexError else AssertionError))"
proof -
  have n: "\<not> list_ex (\<lambda>p. length p < 3) ps"
    using assms by (auto simp: list_all_iff list_ex_iff)
  have m: "map to_lidar ps = map (\<lambda>p. [p ! 1, - (p ! 0), p ! 2]) ps"
    by (simp add: to_lidar_eq)
  have 2: "points_in_boxes conv batch (Dim2 ps) b
           = (case batch [map (\<lambda>p. [p ! 1, - (p ! 0), p ! 2]) ps] [tensor (conv b DEPTH LIDAR None)] of
                Inl e \<Rightarrow> Inl e
              | Inr out \<Rightarrow> Inr (squeeze0 out))"
    using n by (simp add: points_in_boxes_def convert_to_def m Let_def)
  have 3: "points_in_boxes conv batch (Dim3 [ps]) b = points_in_boxes conv batch (Dim2 ps) b"
    using n by (simp add: points_in_boxes_def Let_def)
  have s: "points_in_boxes conv batch (Dim2 ps) b = Inr (Squeezed x)"
    if "batch [map (\<lambda>p. [p ! 1, - (p ! 0), p ! 2]) ps] [tensor (conv b DEPTH LIDAR None)] = Inr [x]"
    unfolding 2 that by simp
  have r: "points_in_boxes conv batch (Dim3 pss) b
              = Inl (if list_ex (\<lambda>p. length p < 3) (concat pss) then IndexError else AssertionError)"
    if "length pss \<noteq> 1"
    using that by (simp add: points_in_boxes_def Let_def)
  show ?thesis using 2 3 s r by blast
qed

theorem points_in_boxes_frame_witness:
  "list_all (\<lambda>p. length p = 3) [[1, 2, 3 :: real]] \<and> length [[[1, 2, 3 :: real]], []] \<noteq> 1
   \<and> (\<lambda>pts boxes. Inr pts :: error + real list list list) [map (\<lambda>p. [p ! 1, - (p ! 0), p ! 2]) [[1, 2, 3]]]
        [tensor unit_box] = Inr [[[2, - 1, 3]]]
   \<and> points_in_boxes (\<lambda>b src dst m. b) (\<lambda>pts boxes. Inr pts) (Dim2 [[1, 2, 3]]) unit_box
        = Inr (Squeezed [[2, - 1, 3]])
   \<and> points_in_boxes (\<lambda>b src dst m. b) (\<lambda>pts boxes. Inr pts) (Dim3 [[[1, 2, 3]]]) unit_box
        = Inr (Squeezed [[2, - 1, 3]])
   \<and> points_in_boxes (\<lambda>b src dst m. b) (\<lambda>pts boxes. Inr pts) (Dim3 [[[1, 2, 3]], []]) unit_box
        = Inl AssertionError"
proof -
  have a: "list_all (\<lambda>p. length p = 3) [[1, 2, 3 :: real]]" by simp
  show ?thesis
    using a points_in_boxes_frame[OF a, of "\<lambda>b src dst m. b" "\<lambda>pts boxes. Inr pts" unit_box
        "[[2, - 1, 3]]" "[[[1, 2, 3]], []]"]
    by simp
qed

section \<open>Nearest axis-aligned rectangle\<close>

text \<open>
  C3, as the code has it. For a box with positive horizontal sizes, the rectangle of
  \<open>nearest_bev\<close> contains the corners of the rotated box, that is the bounding rectangle
  of the rotated bev rectangle, exactly when the yaw is a multiple of \<open>pi / 2\<close> (its sine
  or its cosine is 0). For every other yaw some corner lies outside.
\<close>

theorem nearest_bev_envelope:
  assumes "wf_boxes b" and "i < length (tensor b)"
    and "0 < tensor b ! i ! 3" and "0 < tensor b ! i ! 4"
  shows "nearest_bev_contains_corners b i
         \<longleftrightarrow> sin (tensor b ! i ! 6) = 0 \<or> cos (tensor b ! i ! 6) = 0"
proof -
  have ne: "tensor b \<noteq> []" using assms(2) by auto
  have "nearest_bev_contains_corners b i
        \<longleftrightarrow> list_all (rect_contains (nearest_row (tensor b ! i)))
              (map (corner_of (tensor b ! i)) corners_norm)"
    using assms(2)
    by (simp add: nearest_bev_contains_corners_def nearest_bev_rows[OF assms(1)]
        corners_rows[OF assms(1) ne])
  then show ?thesis
    using row_envelope[OF assms(3) assms(4)] by simp
qed

theorem nearest_bev_envelope_witness:
  "wf_boxes unit_box \<and> (0::nat) < length (tensor unit_box)
   \<and> 0 < tensor unit_box ! 0 ! 3 \<and> 0 < tensor unit_box ! 0 ! 4
   \<and> sin (tensor unit_box ! 0 ! 6) = 0
   \<and> nearest_bev_contains_corners unit_box 0"
proof -
  have w: "wf_boxes unit_box" and i: "0 < length (tensor unit_box)"
    and p: "0 < tensor unit_box ! 0 ! 3" "0 < tensor unit_box ! 0 ! 4"
    and s: "sin (tensor unit_box ! 0 ! 6) = 0"
    by (simp_all add: wf_boxes_def unit_box_def)
  show ?thesis
    using w i p s nearest_bev_envelope[OF w i p] by simp
qed

text \<open>
  The box with sizes \<open>(2, 2, 2)\<close> at the origin with yaw \<open>pi / 4\<close>: \<open>nearest_bev\<close> gives
  \<open>[-1, -1, 1, 1]\<close>, and corner 6 of the box lies at \<open>(0, sqrt 2, 2)\<close>, outside of it.
\<close>

theorem nearest_bev_envelope_counterexample:
  "nearest_bev box_diagonal = Inr [[- 1, - 1, 1, 1]]
   \<and> (case corners box_diagonal of Inl e \<Rightarrow> False | Inr cs \<Rightarrow> cs ! 0 ! 6 = [0, sqrt 2, 2])
   \<and> \<not> nearest_bev_contains_corners box_diagonal 0"
proof -
  have w: "wf_boxes box_diagonal" and n: "tensor box_diagonal \<noteq> []"
    by (simp_all add: wf_boxes_def box_diagonal_def)
  have lp: "limit_period (pi / 4) 0.5 pi = pi / 4"
    by (simp add: limit_period_def)
  have nb: "nearest_bev box_diagonal = Inr [[- 1, - 1, 1, 1]]"
    by (simp add: nearest_bev_def bev_def box_diagonal_def Let_def lp)
  have cs: "corners box_diagonal = Inr [map (corner_of [0, 0, 0, 2, 2, 2, pi / 4]) corners_norm]"
    unfolding corners_rows[OF w n] by (simp add: box_diagonal_def)
  have c6: "map (corner_of [0, 0, 0, 2, 2, 2, pi / 4]) corners_norm ! 6 = [0, sqrt 2, 2]"
    by (simp add: corners_norm_eq corner_of_def cos_45 sin_45)
  have out: "\<not> rect_contains [- 1, - 1, 1, 1] [0, sqrt 2, 2]"
    by (simp add: rect_contains_def)
  have l: "6 < length (map (corner_of [0, 0, 0, 2, 2, 2, pi / 4]) corners_norm)"
    by (simp add: corners_norm_eq)
  have "\<not> list_all (rect_contains [- 1, - 1, 1, 1]) (map (corner_of [0, 0, 0, 2, 2, 2, pi / 4]) corners_norm)"
  proof
    assume "list_all (rect_contains [- 1, - 1, 1, 1]) (map (corner_of [0, 0, 0, 2, 2, 2, pi / 4]) corners_norm)"
    then have "rect_contains [- 1, - 1, 1, 1] (map (corner_of [0, 0, 0, 2, 2, 2, pi / 4]) corners_norm ! 6)"
      using l unfolding list_all_length by blast
    with out show False unfolding c6 by simp
  qed
  then show ?thesis
    by (simp add: nb cs c6 nearest_bev_contains_corners_def)
qed

end
